theory Spec2Isabelle
  imports Main "HOL-Library.Sublist"
begin

section \<open>River-level ingestion (app/main.py)\<close>

text \<open>
  A shallow embedding of \<^verbatim>\<open>src/app/main.py\<close>: the live poller, the archive importer, the
  DynamoDB-backed store operations and the two ingestion handlers. Every Python exception
  is a value of \<open>py_error\<close>; a function that may raise returns \<open>py_error + 'a\<close>. The
  DynamoDB table is explicit state, passed in and returned.
\<close>

subsection \<open>Exceptions\<close>

datatype py_error =
    ClientError string   \<comment> \<open>botocore's ClientError, with \<^verbatim>\<open>e.response['Error']['Code']\<close>\<close>
  | AttributeError
  | IndexError
  | ValueError
  | KeyError
  | OverflowError
  | InvalidOperation     \<comment> \<open>decimal.InvalidOperation\<close>
  | OtherError string    \<comment> \<open>any other exception, e.g. a transport failure\<close>

subsection \<open>Built-ins of Python used by the source\<close>

text \<open>\<^verbatim>\<open>s.split(sep)\<close> for a one-character separator: never empty, \<^verbatim>\<open>''.split(';') == ['']\<close>.\<close>

fun split_str :: "char \<Rightarrow> string \<Rightarrow> string list" where
  "split_str c [] = [[]]"
| "split_str c (x # xs) =
     (if x = c then [] # split_str c xs
      else (case split_str c xs of p # ps \<Rightarrow> (x # p) # ps | [] \<Rightarrow> [[x]]))"

text \<open>
  \<^verbatim>\<open>xs[i]\<close> for a literal index \<open>i \<ge> 0\<close>: IndexError out of range.
\<close>

definition py_index :: "'a list \<Rightarrow> nat \<Rightarrow> py_error + 'a" where
  "py_index xs i = (if i < length xs then Inr (xs ! i) else Inl IndexError)"

text \<open>
  \<^verbatim>\<open>xs[i:]\<close> for any integer \<open>i\<close>: a negative \<open>i\<close> counts from the end and is clipped at
  the start of the list; a slice never raises.
\<close>

definition py_slice_from :: "int \<Rightarrow> 'a list \<Rightarrow> 'a list" where
  "py_slice_from i xs =
     (if i < 0 then drop (length xs - nat (- i)) xs else drop (nat i) xs)"

text \<open>
  \<^verbatim>\<open>int(s)\<close> on an ASCII string: surrounding whitespace is stripped, one sign is allowed, and
  the digits may be grouped by single underscores. \<open>None\<close> stands for ValueError. The
  whitespace that \<^verbatim>\<open>int\<close> skips in an ASCII string is the space and the characters 9 to 13;
  the separators 28 to 31 are not skipped: \<^verbatim>\<open>int('\x1c5')\<close> raises. The limit of recent
  Python versions on the number of digits is not modelled.
\<close>

definition is_space :: "char \<Rightarrow> bool" where
  "is_space c = (of_char c \<in> set [9, 10, 11, 12, 13, 32 :: nat])"

definition strip :: "string \<Rightarrow> string" where
  "strip s = rev (dropWhile is_space (rev (dropWhile is_space s)))"

text \<open>
  \<^verbatim>\<open>s.strip()\<close> on an ASCII string removes the separators 28 to 31 as well.
\<close>

definition is_str_space :: "char \<Rightarrow> bool" where
  "is_str_space c = (of_char c \<in> set [9, 10, 11, 12, 13, 28, 29, 30, 31, 32 :: nat])"

definition str_strip :: "string \<Rightarrow> string" where
  "str_strip s = rev (dropWhile is_str_space (rev (dropWhile is_str_space s)))"

definition is_digit :: "char \<Rightarrow> bool" where
  "is_digit c = (48 \<le> (of_char c :: nat) \<and> (of_char c :: nat) \<le> 57)"

definition digit_val :: "char \<Rightarrow> nat" where
  "digit_val c = of_char c - 48"

fun digits_acc :: "nat \<Rightarrow> string \<Rightarrow> nat option" where
  "digits_acc a [] = Some a"
| "digits_acc a (c # cs) =
     (if is_digit c then digits_acc (10 * a + digit_val c) cs
      else if c = CHR ''_'' then
        (case cs of
           [] \<Rightarrow> None
         | d # _ \<Rightarrow> if is_digit d then digits_acc a cs else None)
      else None)"

definition py_nat :: "string \<Rightarrow> nat option" where
  "py_nat s = (case s of [] \<Rightarrow> None | c # _ \<Rightarrow> if is_digit c then digits_acc 0 s else None)"

definition py_int :: "string \<Rightarrow> int option" where
  "py_int s =
     (case strip s of
        [] \<Rightarrow> None
      | c # r \<Rightarrow>
          if c = CHR ''+'' then map_option int (py_nat r)
          else if c = CHR ''-'' then map_option (\<lambda>n. - int n) (py_nat r)
          else map_option int (py_nat (c # r)))"

definition int_of_str :: "string \<Rightarrow> py_error + int" where
  "int_of_str s = (case py_int s of None \<Rightarrow> Inl ValueError | Some v \<Rightarrow> Inr v)"

text \<open>\<^verbatim>\<open>str(n)\<close> for an integer.\<close>

definition digit_char :: "nat \<Rightarrow> char" where
  "digit_char d = ''0123456789'' ! d"

fun nat_digits :: "nat \<Rightarrow> string" where
  "nat_digits n =
     (if n < 10 then [digit_char n] else nat_digits (n div 10) @ [digit_char (n mod 10)])"

declare nat_digits.simps [simp del]

definition str_of_int :: "int \<Rightarrow> string" where
  "str_of_int i = (if i < 0 then CHR ''-'' # nat_digits (nat (- i)) else nat_digits (nat i))"

subsection \<open>datetime\<close>

text \<open>
  A \<^verbatim>\<open>datetime.datetime\<close> value by its fields; \<open>utcoffset = None\<close> is a naive datetime,
  \<open>Some s\<close> an aware one, \<open>s\<close> seconds east of UTC.
\<close>

record datetime =
  year :: int
  month :: int
  day :: int
  hour :: int
  minute :: int
  second :: int
  microsecond :: int
  utcoffset :: "int option"

definition is_leap :: "int \<Rightarrow> bool" where
  "is_leap y = (y mod 4 = 0 \<and> (y mod 100 \<noteq> 0 \<or> y mod 400 = 0))"

definition days_in_month :: "int \<Rightarrow> int \<Rightarrow> int" where
  "days_in_month y m =
     (if m = 2 \<and> is_leap y then 29
      else [31, 28, 31, 30, 31, 30, 31, 31, 30, 31, 30, 31] ! nat (m - 1))"

definition c_int :: "int \<Rightarrow> bool" where
  "c_int v = (- 2147483648 \<le> v \<and> v \<le> 2147483647)"

text \<open>
  The constructor \<^verbatim>\<open>datetime.datetime(year=, month=, day=, hour=, minute=)\<close>: the arguments
  are converted to C ints first (OverflowError), then the date and the time of day are
  range-checked (ValueError).
\<close>

definition new_datetime :: "int \<Rightarrow> int \<Rightarrow> int \<Rightarrow> int \<Rightarrow> int \<Rightarrow> py_error + datetime" where
  "new_datetime y m d h mi =
     (if \<not> (c_int y \<and> c_int m \<and> c_int d \<and> c_int h \<and> c_int mi) then Inl OverflowError
      else if \<not> (1 \<le> y \<and> y \<le> 9999 \<and> 1 \<le> m \<and> m \<le> 12 \<and> 1 \<le> d \<and> d \<le> days_in_month y m)
        then Inl ValueError
      else if \<not> (0 \<le> h \<and> h \<le> 23 \<and> 0 \<le> mi \<and> mi \<le> 59) then Inl ValueError
      else Inr \<lparr>year = y, month = m, day = d, hour = h, minute = mi, second = 0,
                microsecond = 0, utcoffset = None\<rparr>)"

text \<open>The proleptic Gregorian ordinal of a date and back, as the datetime module computes them.\<close>

definition days_before_year :: "int \<Rightarrow> int" where
  "days_before_year y = (let p = y - 1 in p * 365 + p div 4 - p div 100 + p div 400)"

definition days_before_month :: "int \<Rightarrow> int \<Rightarrow> int" where
  "days_before_month y m =
     [0, 31, 59, 90, 120, 151, 181, 212, 243, 273, 304, 334] ! nat (m - 1)
       + (if m > 2 \<and> is_leap y then 1 else 0)"

definition ymd2ord :: "int \<Rightarrow> int \<Rightarrow> int \<Rightarrow> int" where
  "ymd2ord y m d = days_before_year y + days_before_month y m + d"

definition ord2ymd :: "int \<Rightarrow> int \<times> int \<times> int" where
  "ord2ymd n =
     (let n0 = n - 1;
          n400 = n0 div 146097; r = n0 mod 146097;
          n100 = r div 36524; r2 = r mod 36524;
          n4 = r2 div 1461; r3 = r2 mod 1461;
          n1 = r3 div 365; r4 = r3 mod 365;
          y = n400 * 400 + 1 + n100 * 100 + n4 * 4 + n1
      in if n1 = 4 \<or> n100 = 4 then (y - 1, 12, 31)
         else
           let leapyear = (n1 = 3 \<and> (n4 \<noteq> 24 \<or> n100 = 3));
               m = (r4 + 50) div 32;
               preceding =
                 [0, 31, 59, 90, 120, 151, 181, 212, 243, 273, 304, 334] ! nat (m - 1)
                   + (if m > 2 \<and> leapyear then 1 else 0)
           in if preceding > r4
              then
                (let m' = m - 1;
                     preceding' = preceding
                       - ([31, 28, 31, 30, 31, 30, 31, 31, 30, 31, 30, 31] ! nat (m' - 1)
                           + (if m' = 2 \<and> leapyear then 1 else 0))
                 in (y, m', r4 - preceding' + 1))
              else (y, m, r4 - preceding + 1))"

text \<open>
  \<^verbatim>\<open>d - datetime.timedelta(days=n)\<close>: the date moves by whole days, the time of day stays;
  OverflowError when the result leaves the years 1 to 9999.
\<close>

definition sub_days :: "datetime \<Rightarrow> int \<Rightarrow> py_error + datetime" where
  "sub_days d n =
     (let k = ymd2ord (year d) (month d) (day d) - n
      in if k < 1 \<or> k > 3652059 then Inl OverflowError
         else (case ord2ymd k of (y, m, dd) \<Rightarrow> Inr (d\<lparr>year := y, month := m, day := dd\<rparr>)))"

subsection \<open>The library functions taken as parameters\<close>

text \<open>
  The source calls the following library functions, whose results depend on the process
  (its time zone) or on a large library (dateutil, decimal). They are parameters of the
  model, so every theorem holds whatever they compute:
  \<^item> \<open>dt_timestamp d\<close> is \<^verbatim>\<open>int(d.timestamp())\<close>, epoch seconds; for a naive datetime it is
    read in the local time zone of the process;
  \<^item> \<open>dt_fromtimestamp t\<close> is \<^verbatim>\<open>datetime.datetime.fromtimestamp(t)\<close>, a naive local datetime;
  \<^item> \<open>Decimal s\<close> is \<^verbatim>\<open>Decimal(s)\<close>, and \<open>decimal_sub\<close> the subtraction of two decimals;
  \<^item> \<open>parser_parse s\<close> is dateutil's \<^verbatim>\<open>parser.parse(s)\<close>.
  The type \<open>'d\<close> is the type of decimal values.
\<close>

record 'd runtime =
  dt_timestamp :: "datetime \<Rightarrow> int"
  dt_fromtimestamp :: "int \<Rightarrow> datetime"
  Decimal :: "string \<Rightarrow> py_error + 'd"
  decimal_sub :: "'d \<Rightarrow> 'd \<Rightarrow> py_error + 'd"
  parser_parse :: "string \<Rightarrow> py_error + datetime"

subsection \<open>Level\<close>

text \<open>The class \<^verbatim>\<open>Level\<close> (lines 32 to 35): a time and a level, nothing else.\<close>

record 'd Level =
  time :: datetime
  level :: 'd

subsection \<open>The DynamoDB table\<close>

text \<open>
  The table \<^verbatim>\<open>river_levels\<close> holds items with the attributes \<^verbatim>\<open>river_name\<close> (partition
  key), \<^verbatim>\<open>timestamp\<close> (sort key) and \<^verbatim>\<open>level\<close>. The service keeps at most one item per
  key: \<open>table_ok\<close>. Its three requests used by the source:
  \<^item> \<open>put_item\<close> with the condition \<^verbatim>\<open>attribute_not_exists(river_name)\<close> fails with the
    code ConditionalCheckFailedException when an item with the key of the new item exists
    (such an item always has its key attribute \<^verbatim>\<open>river_name\<close>); without a condition it
    replaces the item of that key. A failure of the service or of the transport is the
    parameter \<open>fault\<close>: the exception raised for this request, if any;
  \<^item> the batch writer with \<^verbatim>\<open>overwrite_by_pkeys\<close> puts each item in turn, without condition;
  \<^item> \<open>query\<close> returns the items of a partition whose sort key is greater than a bound, in
    ascending order of the sort key.
  The answer of a query is taken to hold every matching item (the source reads one page of
  the answer), and the levels are taken to be numbers the service can store.
\<close>

record 'd item =
  river_name :: string
  timestamp :: int
  item_level :: 'd

type_synonym 'd table = "'d item list"

definition key :: "'d item \<Rightarrow> string \<times> int" where
  "key it = (river_name it, timestamp it)"

definition table_ok :: "'d table \<Rightarrow> bool" where
  "table_ok tbl = distinct (map key tbl)"

definition has_key :: "'d table \<Rightarrow> string \<times> int \<Rightarrow> bool" where
  "has_key tbl k = (k \<in> set (map key tbl))"

definition items_at :: "'d table \<Rightarrow> string \<times> int \<Rightarrow> 'd item list" where
  "items_at tbl k = filter (\<lambda>x. key x = k) tbl"

definition overwrite :: "'d table \<Rightarrow> 'd item \<Rightarrow> 'd table" where
  "overwrite tbl it = filter (\<lambda>x. key x \<noteq> key it) tbl @ [it]"

definition put_item :: "py_error option \<Rightarrow> 'd table \<Rightarrow> 'd item \<Rightarrow> bool \<Rightarrow> py_error + 'd table" where
  "put_item fault tbl it attribute_not_exists =
     (case fault of
        Some e \<Rightarrow> Inl e
      | None \<Rightarrow>
          if attribute_not_exists \<and> has_key tbl (key it)
          then Inl (ClientError ''ConditionalCheckFailedException'')
          else Inr (overwrite tbl it))"

definition query :: "'d table \<Rightarrow> string \<Rightarrow> int \<Rightarrow> 'd item list" where
  "query tbl name since =
     sort_key timestamp (filter (\<lambda>x. river_name x = name \<and> since < timestamp x) tbl)"

subsection \<open>update_level_db (lines 38 to 54)\<close>

text \<open>
  The argument is \<open>None\<close> when the caller passes Python's \<^verbatim>\<open>None\<close>: reading \<^verbatim>\<open>level.time\<close>
  raises AttributeError, which the handler of ClientError does not catch. The table is
  returned unchanged whenever the request raised.
\<close>

definition update_level_db ::
  "'d runtime \<Rightarrow> py_error option \<Rightarrow> 'd table \<Rightarrow> 'd Level option \<Rightarrow> (py_error + bool) \<times> 'd table" where
  "update_level_db L fault tbl lv =
     (case lv of
        None \<Rightarrow> (Inl AttributeError, tbl)
      | Some l \<Rightarrow>
          (case put_item fault tbl
                  \<lparr>river_name = ''Flesk'', timestamp = dt_timestamp L (time l),
                   item_level = level l\<rparr> True of
             Inl (ClientError code) \<Rightarrow>
               if code \<noteq> ''ConditionalCheckFailedException''
               then (Inl (ClientError code), tbl)
               else (Inr False, tbl)
           | Inl e \<Rightarrow> (Inl e, tbl)
           | Inr tbl' \<Rightarrow> (Inr True, tbl')))"

subsection \<open>batch_update_level_db (lines 57 to 68)\<close>

text \<open>
  The batch writer receives one unconditional put per level, in the order of the list; a
  later item of the same key replaces the earlier one. An empty list sends nothing.
\<close>

definition item_of :: "'d runtime \<Rightarrow> string \<Rightarrow> 'd Level \<Rightarrow> 'd item" where
  "item_of L name l =
     \<lparr>river_name = name, timestamp = dt_timestamp L (time l), item_level = level l\<rparr>"

definition batch_update_level_db :: "'d runtime \<Rightarrow> 'd table \<Rightarrow> string \<Rightarrow> 'd Level list \<Rightarrow> 'd table" where
  "batch_update_level_db L tbl name levels =
     foldl (\<lambda>t l. overwrite t (item_of L name l)) tbl levels"

subsection \<open>get_latest_level (lines 71 to 81)\<close>

text \<open>
  The argument \<open>gauges\<close> is the decoded JSON array of the live feed, each entry a dictionary
  from attribute names to strings; a missing attribute is a KeyError. When no entry
  matches, the function prints a message and falls off its end: it returns \<^verbatim>\<open>None\<close>.
\<close>

type_synonym gauge = "string \<rightharpoonup> string"

definition dict_get :: "gauge \<Rightarrow> string \<Rightarrow> py_error + string" where
  "dict_get g k = (case g k of None \<Rightarrow> Inl KeyError | Some v \<Rightarrow> Inr v)"

definition gauge_level :: "'d runtime \<Rightarrow> gauge \<Rightarrow> py_error + 'd Level" where
  "gauge_level L g =
     (case dict_get g ''L1_timestamp'' of Inl e \<Rightarrow> Inl e | Inr ts \<Rightarrow>
      (case parser_parse L ts of Inl e \<Rightarrow> Inl e | Inr parsed_time \<Rightarrow>
      (case dict_get g ''L1_ts_value'' of Inl e \<Rightarrow> Inl e | Inr v \<Rightarrow>
      (case Decimal L v of Inl e \<Rightarrow> Inl e | Inr a \<Rightarrow>
      (case dict_get g ''L1_station_gauge_datum'' of Inl e \<Rightarrow> Inl e | Inr dv \<Rightarrow>
      (case Decimal L dv of Inl e \<Rightarrow> Inl e | Inr b \<Rightarrow>
      (case decimal_sub L a b of Inl e \<Rightarrow> Inl e | Inr lv \<Rightarrow>
         Inr \<lparr>time = parsed_time, level = lv\<rparr>)))))))"

fun get_latest_level :: "'d runtime \<Rightarrow> gauge list \<Rightarrow> int \<Rightarrow> py_error + 'd Level option" where
  "get_latest_level L [] gauge_number = Inr None"
| "get_latest_level L (g # gauges) gauge_number =
     (case dict_get g ''metadata_station_no'' of
        Inl e \<Rightarrow> Inl e
      | Inr no \<Rightarrow>
          if no = str_of_int gauge_number
          then (case gauge_level L g of Inl e \<Rightarrow> Inl e | Inr l \<Rightarrow> Inr (Some l))
          else get_latest_level L gauges gauge_number)"

subsection \<open>get_past_data_epa (lines 84 to 111)\<close>

text \<open>
  The argument \<open>csv_rows\<close> is what \<^verbatim>\<open>csv.reader(f, delimiter=' ')\<close> yields for the extracted
  file: one list of fields per line. For a line without quote characters the fields are
  the line split at every space, and an empty line gives the empty list: \<open>csv_row\<close>.
\<close>

definition csv_row :: "string \<Rightarrow> string list" where
  "csv_row line = (if line = [] then [] else split_str CHR '' '' line)"

text \<open>Line 91: the rows whose first field holds no \<^verbatim>\<open>#\<close>; \<^verbatim>\<open>row[0]\<close> raises on an empty row.\<close>

fun noncomment_rows :: "string list list \<Rightarrow> py_error + string list list" where
  "noncomment_rows [] = Inr []"
| "noncomment_rows (row # rest) =
     (case py_index row 0 of
        Inl e \<Rightarrow> Inl e
      | Inr f \<Rightarrow>
          (case noncomment_rows rest of
             Inl e \<Rightarrow> Inl e
           | Inr rs \<Rightarrow> Inr (if CHR ''#'' \<notin> set f then row # rs else rs)))"

text \<open>\<^verbatim>\<open>int(s.split(c)[i])\<close>.\<close>

definition int_part :: "char \<Rightarrow> string \<Rightarrow> nat \<Rightarrow> py_error + int" where
  "int_part c s i =
     (case py_index (split_str c s) i of Inl e \<Rightarrow> Inl e | Inr p \<Rightarrow> int_of_str p)"

text \<open>
  Lines 96 to 104, outside the \<^verbatim>\<open>try\<close>: the date and time fields and the datetime built
  from them; the keyword arguments are evaluated in the order they are written.
\<close>

definition row_time :: "string list \<Rightarrow> py_error + datetime" where
  "row_time row =
     (case py_index row 0 of Inl e \<Rightarrow> Inl e | Inr date \<Rightarrow>
      (case py_index row 1 of Inl e \<Rightarrow> Inl e | Inr f1 \<Rightarrow>
      (case py_index (split_str CHR '';'' f1) 0 of Inl e \<Rightarrow> Inl e | Inr tm \<Rightarrow>
      (case int_part CHR ''-'' date 0 of Inl e \<Rightarrow> Inl e | Inr y \<Rightarrow>
      (case int_part CHR ''-'' date 1 of Inl e \<Rightarrow> Inl e | Inr m \<Rightarrow>
      (case int_part CHR ''-'' date 2 of Inl e \<Rightarrow> Inl e | Inr d \<Rightarrow>
      (case int_part CHR '':'' tm 0 of Inl e \<Rightarrow> Inl e | Inr h \<Rightarrow>
      (case int_part CHR '':'' tm 1 of Inl e \<Rightarrow> Inl e | Inr mi \<Rightarrow>
         new_datetime y m d h mi))))))))"

text \<open>Line 107, inside the \<^verbatim>\<open>try\<close>: \<^verbatim>\<open>Decimal(row[1].split(";")[1])\<close>.\<close>

definition row_level :: "'d runtime \<Rightarrow> string list \<Rightarrow> py_error + 'd" where
  "row_level L row =
     (case py_index row 1 of Inl e \<Rightarrow> Inl e | Inr f1 \<Rightarrow>
      (case py_index (split_str CHR '';'' f1) 1 of Inl e \<Rightarrow> Inl e | Inr v \<Rightarrow> Decimal L v))"

text \<open>
  The loop of lines 95 to 109 over the selected rows. An exception of \<open>row_time\<close> ends the
  import; an exception of \<open>row_level\<close> is swallowed by the bare \<^verbatim>\<open>except\<close> and the row adds
  nothing to \<^verbatim>\<open>levels\<close>.
\<close>

fun epa_loop :: "'d runtime \<Rightarrow> string list list \<Rightarrow> py_error + 'd Level list" where
  "epa_loop L [] = Inr []"
| "epa_loop L (row # rest) =
     (case row_time row of
        Inl e \<Rightarrow> Inl e
      | Inr parsed_time \<Rightarrow>
          (case epa_loop L rest of
             Inl e \<Rightarrow> Inl e
           | Inr levels \<Rightarrow>
               Inr (case row_level L row of
                      Inl e \<Rightarrow> levels
                    | Inr v \<Rightarrow> \<lparr>time = parsed_time, level = v\<rparr> # levels)))"

definition get_past_data_epa :: "'d runtime \<Rightarrow> string list list \<Rightarrow> int \<Rightarrow> py_error + 'd Level list" where
  "get_past_data_epa L csv_rows n_last_readings =
     (case noncomment_rows csv_rows of
        Inl e \<Rightarrow> Inl e
      | Inr rows \<Rightarrow> epa_loop L (py_slice_from (- n_last_readings) rows))"

text \<open>
  What one row adds to the result when the loop reaches it: its reading, or nothing when
  the date, the time or the value does not parse. It is used to state what the loop returns.
\<close>

definition row_reading :: "'d runtime \<Rightarrow> string list \<Rightarrow> 'd Level option" where
  "row_reading L row =
     (case row_time row of
        Inl e \<Rightarrow> None
      | Inr t \<Rightarrow> (case row_level L row of Inl e \<Rightarrow> None | Inr v \<Rightarrow> Some \<lparr>time = t, level = v\<rparr>))"

subsection \<open>get_past_data_dynamo (lines 114 to 122)\<close>

definition level_of_item :: "'d runtime \<Rightarrow> 'd item \<Rightarrow> 'd Level" where
  "level_of_item L it = \<lparr>time = dt_fromtimestamp L (timestamp it), level = item_level it\<rparr>"

definition get_past_data_dynamo :: "'d runtime \<Rightarrow> 'd table \<Rightarrow> string \<Rightarrow> datetime \<Rightarrow> 'd Level list" where
  "get_past_data_dynamo L tbl name since_date =
     (let since_timestamp = dt_timestamp L since_date
      in map (level_of_item L) (query tbl name since_timestamp))"

subsection \<open>The handlers (lines 176 to 200)\<close>

definition FLESK_GAUGE_NUMBER :: int where
  "FLESK_GAUGE_NUMBER = 22039"

definition update_current_levels_table_handler ::
  "'d runtime \<Rightarrow> py_error option \<Rightarrow> gauge list \<Rightarrow> 'd table \<Rightarrow> (py_error + bool) \<times> 'd table" where
  "update_current_levels_table_handler L fault gauges tbl =
     (case get_latest_level L gauges FLESK_GAUGE_NUMBER of
        Inl e \<Rightarrow> (Inl e, tbl)
      | Inr lv \<Rightarrow> update_level_db L fault tbl lv)"

text \<open>Lines 189 and 192: the levels of the archive whose time is not a time of the window.\<close>

definition new_river_levels :: "'d Level list \<Rightarrow> 'd Level list \<Rightarrow> 'd Level list" where
  "new_river_levels epa_levels dynamo_levels =
     (let dynamo_times = set (map time dynamo_levels)
      in filter (\<lambda>l. time l \<notin> dynamo_times) epa_levels)"

text \<open>
  The argument \<open>now\<close> is the value of \<^verbatim>\<open>datetime.datetime.now()\<close>. The result is the
  exception raised, or the boolean returned together with the table after the call.
\<close>

definition update_past_levels_table_handler ::
  "'d runtime \<Rightarrow> string list list \<Rightarrow> datetime \<Rightarrow> 'd table \<Rightarrow> py_error + (bool \<times> 'd table)" where
  "update_past_levels_table_handler L csv_rows now tbl =
     (case get_past_data_epa L csv_rows 3000 of
        Inl e \<Rightarrow> Inl e
      | Inr epa_levels \<Rightarrow>
          (case sub_days now 50 of
             Inl e \<Rightarrow> Inl e
           | Inr since_date \<Rightarrow>
               (let dynamo_levels = get_past_data_dynamo L tbl ''Flesk'' since_date;
                    new = new_river_levels epa_levels dynamo_levels
                in if new \<noteq> []
                   then Inr (True, batch_update_level_db L tbl ''Flesk'' new)
                   else Inr (False, tbl))))"

subsection \<open>A concrete runtime for the examples\<close>

text \<open>
  The examples below run the model on concrete inputs. They use the following instance of
  the library parameters: a process in the time zone UTC, decimals written as plain
  literals (an optional sign, digits, an optional fraction) and kept as an unscaled integer
  with its number of fraction digits, and time stamps of the form
  \<^verbatim>\<open>2024-01-01T10:00:00Z\<close>. Exponents, infinities, NaNs and other date formats, which the
  libraries also accept, do not occur in the examples.
\<close>

definition utc_timestamp :: "datetime \<Rightarrow> int" where
  "utc_timestamp d =
     (let whole = (ymd2ord (year d) (month d) (day d) - 719163) * 86400
                    + hour d * 3600 + minute d * 60 + second d
                    - (case utcoffset d of None \<Rightarrow> 0 | Some off \<Rightarrow> off)
      in if whole < 0 \<and> microsecond d > 0 then whole + 1 else whole)"

definition utc_fromtimestamp :: "int \<Rightarrow> datetime" where
  "utc_fromtimestamp t =
     (let days = t div 86400; sod = t mod 86400
      in case ord2ymd (days + 719163) of
           (y, m, d) \<Rightarrow>
             \<lparr>year = y, month = m, day = d, hour = sod div 3600,
              minute = (sod mod 3600) div 60, second = sod mod 60, microsecond = 0,
              utcoffset = None\<rparr>)"

type_synonym fixed = "int \<times> nat"

definition digits_val :: "string \<Rightarrow> nat" where
  "digits_val s = foldl (\<lambda>a c. 10 * a + digit_val c) 0 s"

definition fixed_of_str :: "string \<Rightarrow> py_error + fixed" where
  "fixed_of_str s =
     (let t = str_strip s;
          neg = (case t of [] \<Rightarrow> False | c # _ \<Rightarrow> c = CHR ''-'');
          body = (case t of [] \<Rightarrow> [] | c # r \<Rightarrow> if c = CHR ''-'' \<or> c = CHR ''+'' then r else t);
          sg = (if neg then - 1 else 1)
      in case split_str CHR ''.'' body of
           [i] \<Rightarrow>
             if i \<noteq> [] \<and> list_all is_digit i then Inr (sg * int (digits_val i), 0)
             else Inl InvalidOperation
         | [i, f] \<Rightarrow>
             if (i \<noteq> [] \<or> f \<noteq> []) \<and> list_all is_digit (i @ f)
             then Inr (sg * int (digits_val (i @ f)), length f)
             else Inl InvalidOperation
         | _ \<Rightarrow> Inl InvalidOperation)"

definition fixed_sub :: "fixed \<Rightarrow> fixed \<Rightarrow> py_error + fixed" where
  "fixed_sub a b =
     (let s = max (snd a) (snd b)
      in Inr (fst a * 10 ^ (s - snd a) - fst b * 10 ^ (s - snd b), s))"

definition iso_parse :: "string \<Rightarrow> py_error + datetime" where
  "iso_parse s =
     (case split_str CHR ''T'' s of
        [d, t] \<Rightarrow>
          (if t \<noteq> [] \<and> last t = CHR ''Z'' then
             (case int_part CHR ''-'' d 0 of Inl e \<Rightarrow> Inl e | Inr y \<Rightarrow>
             (case int_part CHR ''-'' d 1 of Inl e \<Rightarrow> Inl e | Inr m \<Rightarrow>
             (case int_part CHR ''-'' d 2 of Inl e \<Rightarrow> Inl e | Inr dd \<Rightarrow>
             (case int_part CHR '':'' (butlast t) 0 of Inl e \<Rightarrow> Inl e | Inr h \<Rightarrow>
             (case int_part CHR '':'' (butlast t) 1 of Inl e \<Rightarrow> Inl e | Inr mi \<Rightarrow>
             (case int_part CHR '':'' (butlast t) 2 of Inl e \<Rightarrow> Inl e | Inr sec \<Rightarrow>
             (case new_datetime y m dd h mi of Inl e \<Rightarrow> Inl e | Inr dt \<Rightarrow>
                if 0 \<le> sec \<and> sec \<le> 59 then Inr (dt\<lparr>second := sec, utcoffset := Some 0\<rparr>)
                else Inl ValueError)))))))
           else Inl ValueError)
      | _ \<Rightarrow> Inl ValueError)"

definition utc_runtime :: "fixed runtime" where
  "utc_runtime =
     \<lparr>dt_timestamp = utc_timestamp, dt_fromtimestamp = utc_fromtimestamp,
      Decimal = fixed_of_str, decimal_sub = fixed_sub, parser_parse = iso_parse\<rparr>"

subsection \<open>Inputs of the examples\<close>

definition naive :: "int \<Rightarrow> int \<Rightarrow> int \<Rightarrow> int \<Rightarrow> int \<Rightarrow> datetime" where
  "naive y m d h mi =
     \<lparr>year = y, month = m, day = d, hour = h, minute = mi, second = 0, microsecond = 0,
      utcoffset = None\<rparr>"

definition aware_utc :: "int \<Rightarrow> int \<Rightarrow> int \<Rightarrow> int \<Rightarrow> int \<Rightarrow> datetime" where
  "aware_utc y m d h mi = (naive y m d h mi)\<lparr>utcoffset := Some 0\<rparr>"

text \<open>The reading 1.22 of 1 January 2024, 10:00, and the item it is stored as.\<close>

definition ex_reading :: "fixed Level" where
  "ex_reading = \<lparr>time = naive 2024 1 1 10 0, level = (122, 2)\<rparr>"

definition ex_item :: "fixed item" where
  "ex_item = \<lparr>river_name = ''Flesk'', timestamp = 1704103200, item_level = (122, 2)\<rparr>"

text \<open>A live feed with the single station 25017, and the empty feed.\<close>

definition other_feed :: "gauge list" where
  "other_feed =
     [[''metadata_station_no'' \<mapsto> ''25017'', ''L1_timestamp'' \<mapsto> ''2024-01-01T10:00:00Z'',
       ''L1_ts_value'' \<mapsto> ''1.52'', ''L1_station_gauge_datum'' \<mapsto> ''0.3'']]"

text \<open>Readings and stored items of 1 January 2024, two decimals.\<close>

definition reading_at :: "int \<Rightarrow> int \<Rightarrow> int \<Rightarrow> fixed Level" where
  "reading_at h mi v = \<lparr>time = naive 2024 1 1 h mi, level = (v, 2)\<rparr>"

definition store12 :: "fixed table" where
  "store12 =
     [\<lparr>river_name = ''Flesk'', timestamp = 1704103200, item_level = (123, 2)\<rparr>,
      \<lparr>river_name = ''Flesk'', timestamp = 1704104100, item_level = (125, 2)\<rparr>]"

definition item3 :: "fixed item" where
  "item3 = \<lparr>river_name = ''Flesk'', timestamp = 1704105000, item_level = (127, 2)\<rparr>"

text \<open>A table with the time stamps 100, 200 and 300 of Flesk and one item of another river.\<close>

definition store3 :: "fixed table" where
  "store3 =
     [\<lparr>river_name = ''Flesk'', timestamp = 300, item_level = (130, 2)\<rparr>,
      \<lparr>river_name = ''Flesk'', timestamp = 100, item_level = (110, 2)\<rparr>,
      \<lparr>river_name = ''Laune'', timestamp = 300, item_level = (999, 2)\<rparr>,
      \<lparr>river_name = ''Flesk'', timestamp = 200, item_level = (120, 2)\<rparr>]"

definition since200 :: datetime where
  "since200 = (naive 1970 1 1 0 3)\<lparr>second := 20\<rparr>"

text \<open>Archives, as the rows the CSV reader yields for their lines.\<close>

definition archive3 :: "string list list" where
  "archive3 = map csv_row
     [''#Timestamp;Value;Quality'',
      ''2024-01-01 10:00:00;1.23;200'',
      ''2024-01-01 10:15:00;1.25;200'',
      ''2024-01-01 10:30:00;1.27;200'']"

definition archive10 :: "string list list" where
  "archive10 = map csv_row
     [''#Timestamp;Value;Quality'',
      ''2024-01-01 00:00:00;1.00;200'', ''2024-01-01 00:15:00;1.01;200'',
      ''2024-01-01 00:30:00;1.02;200'', ''2024-01-01 00:45:00;1.03;200'',
      ''2024-01-01 01:00:00;1.04;200'', ''2024-01-01 01:15:00;1.05;200'',
      ''2024-01-01 01:30:00;1.06;200'', ''2024-01-01 01:45:00;1.07;200'',
      ''2024-01-01 02:00:00;1.08;200'', ''2024-01-01 02:15:00;1.09;200'']"

definition archive2 :: "string list list" where
  "archive2 = map csv_row [''2024-01-01 00:00:00;1.00;200'', ''2024-01-01 00:15:00;1.01;200'']"

definition archive_mixed :: "string list list" where
  "archive_mixed = map csv_row
     [''#Timestamp;Value;Quality'',
      ''2024-01-01 10:00:00;1.23;200'',
      ''2024-01-01 10:15:00;---;-1'']"

definition archive_bad_date :: "string list list" where
  "archive_bad_date = map csv_row
     [''2024-01-01 10:00:00;1.23;200'',
      ''2024-0x-01 10:15:00;1.25;200'',
      ''2024-01-01 10:30:00;1.27;200'']"

section \<open>Properties\<close>

subsection \<open>The store\<close>

lemma overwrite_fresh: "\<not> has_key tbl (key it) \<Longrightarrow> overwrite tbl it = tbl @ [it]"
  by (induction tbl) (auto simp: overwrite_def has_key_def)

lemma table_ok_overwrite: "table_ok tbl \<Longrightarrow> table_ok (overwrite tbl it)"
  by (auto simp: table_ok_def overwrite_def distinct_map_filter)

lemma table_ok_batch_update:
  "table_ok tbl \<Longrightarrow> table_ok (batch_update_level_db L tbl name ls)"
proof (induction ls arbitrary: tbl)
  case Nil
  then show ?case by (simp add: batch_update_level_db_def)
next
  case (Cons l ls)
  from Cons.IH [OF table_ok_overwrite [OF Cons.prems, of "item_of L name l"]]
  show ?case by (simp add: batch_update_level_db_def)
qed

lemma has_key_overwrite: "has_key (overwrite tbl it) k \<longleftrightarrow> k = key it \<or> has_key tbl k"
  by (auto simp: has_key_def overwrite_def)

lemma items_at_single:
  "table_ok tbl \<Longrightarrow> has_key tbl k \<Longrightarrow> length (items_at tbl k) = 1"
proof (induction tbl)
  case Nil
  then show ?case by (simp add: has_key_def)
next
  case (Cons x xs)
  show ?case
  proof (cases "key x = k")
    case True
    from Cons.prems(1) have "distinct (map key (x # xs))"
      by (simp add: table_ok_def)
    with True have "\<forall>y\<in>set xs. key y \<noteq> k"
      by (metis distinct.simps(2) imageI list.simps(9) set_map)
    then have "filter (\<lambda>y. key y = k) xs = []"
      by (simp add: filter_empty_conv)
    with True show ?thesis by (simp add: items_at_def)
  next
    case False
    with Cons show ?thesis by (auto simp: items_at_def table_ok_def has_key_def)
  qed
qed

subsection \<open>The conditional put\<close>

lemma update_level_db_healthy:
  "update_level_db L None tbl (Some l) =
     (if has_key tbl (''Flesk'', dt_timestamp L (time l)) then (Inr False, tbl)
      else (Inr True, tbl @ [item_of L ''Flesk'' l]))"
  by (simp add: update_level_db_def put_item_def key_def item_of_def overwrite_fresh)

lemma update_level_db_fault:
  "update_level_db L (Some e) tbl (Some l) =
     (if e = ClientError ''ConditionalCheckFailedException'' then (Inr False, tbl) else (Inl e, tbl))"
  by (cases e) (simp_all add: update_level_db_def put_item_def)

lemma update_level_db_cases:
  assumes "update_level_db L fault tbl lv = (r, tbl')"
  shows "tbl' = tbl
       \<or> (\<exists>l. lv = Some l \<and> r = Inr True \<and> tbl' = tbl @ [item_of L ''Flesk'' l])"
proof (cases lv)
  case None
  with assms show ?thesis by (simp add: update_level_db_def)
next
  case (Some l)
  show ?thesis
  proof (cases fault)
    case None
    with Some assms show ?thesis
      by (simp add: update_level_db_healthy split: if_splits)
  next
    case (Some e)
    with \<open>lv = Some l\<close> assms show ?thesis
      by (simp add: update_level_db_fault split: if_splits)
  qed
qed

lemma ex_reading_timestamp: "dt_timestamp utc_runtime (time ex_reading) = 1704103200"
  by code_simp

lemma ex_item_eq: "item_of utc_runtime ''Flesk'' ex_reading = ex_item"
  by (simp add: item_of_def ex_reading_timestamp) (simp add: ex_item_def ex_reading_def)

lemma ex_first: "update_level_db utc_runtime None [] (Some ex_reading) = (Inr True, [ex_item])"
  by (simp add: update_level_db_healthy has_key_def ex_item_eq)

lemma ex_again:
  "update_level_db utc_runtime None [ex_item] (Some ex_reading) = (Inr False, [ex_item])"
  by (simp add: update_level_db_healthy has_key_def ex_reading_timestamp key_def ex_item_def)

text \<open>
  Claim C1. On a table with at most one item per key and a store that answers the request,
  the conditional put of a reading returns true exactly when no item has the key
  (Flesk, timestamp of the reading), and then the table is the old one with the new item
  added; when an item has the key it returns false and the table, so the stored level, is
  the same as before. Submitting the same reading a second time returns false, changes
  nothing, and the table holds exactly one item of that key.
\<close>

theorem update_level_db_first_write_wins:
  fixes L :: "'d runtime" and l :: "'d Level"
  assumes ok: "table_ok tbl"
  shows "let k = (''Flesk'', dt_timestamp L (time l));
             first = update_level_db L None tbl (Some l);
             again = update_level_db L None (snd first) (Some l)
         in fst first = Inr (\<not> has_key tbl k)
          \<and> snd first = (if has_key tbl k then tbl else tbl @ [item_of L ''Flesk'' l])
          \<and> fst again = Inr False
          \<and> snd again = snd first
          \<and> length (items_at (snd again) k) = 1
          \<and> table_ok (snd again)"
proof -
  define k where "k = (''Flesk'', dt_timestamp L (time l))"
  define it where "it = item_of L ''Flesk'' l"
  have kit: "key it = k" by (simp add: it_def k_def item_of_def key_def)
  show ?thesis
  proof (cases "has_key tbl k")
    case True
    then show ?thesis
      using ok by (simp add: update_level_db_healthy Let_def k_def [symmetric] items_at_single)
  next
    case False
    then have ow: "overwrite tbl it = tbl @ [it]" by (simp add: overwrite_fresh kit)
    have hk: "has_key (tbl @ [it]) k" using has_key_overwrite [of tbl it k] by (simp add: ow kit)
    have ok': "table_ok (tbl @ [it])" using table_ok_overwrite [OF ok, of it] by (simp add: ow)
    from False hk ok' show ?thesis
      by (simp add: update_level_db_healthy Let_def k_def [symmetric] it_def [symmetric] items_at_single)
  qed
qed

theorem update_level_db_first_write_wins_witness:
  "table_ok ([] :: fixed table)
   \<and> update_level_db utc_runtime None [] (Some ex_reading) = (Inr True, [ex_item])
   \<and> update_level_db utc_runtime None [ex_item] (Some ex_reading) = (Inr False, [ex_item])
   \<and> length (items_at [ex_item] (''Flesk'', 1704103200)) = 1"
proof -
  have ok: "table_ok ([] :: fixed table)"
    by (simp add: table_ok_def)
  have "length (items_at (snd (update_level_db utc_runtime None
            (snd (update_level_db utc_runtime None [] (Some ex_reading))) (Some ex_reading)))
          (''Flesk'', dt_timestamp utc_runtime (time ex_reading))) = 1"
    using update_level_db_first_write_wins [OF ok, of utc_runtime ex_reading, unfolded Let_def]
    by blast
  then have "length (items_at [ex_item] (''Flesk'', 1704103200)) = 1"
    by (simp only: ex_first ex_again snd_conv ex_reading_timestamp)
  with ok ex_first ex_again show ?thesis
    by (simp only: simp_thms)
qed

text \<open>
  First write wins on a conflicting level: the key of the example reading already holds
  the level 1.00; the put of 1.22 returns false and the stored level stays 1.00.
\<close>

lemma first_write_wins_example:
  "update_level_db utc_runtime None
     [\<lparr>river_name = ''Flesk'', timestamp = 1704103200, item_level = (100, 2)\<rparr>] (Some ex_reading)
   = (Inr False, [\<lparr>river_name = ''Flesk'', timestamp = 1704103200, item_level = (100, 2)\<rparr>])"
  by (simp add: update_level_db_healthy has_key_def ex_reading_timestamp key_def)

text \<open>
  Claim C6. When the store raises an exception \<open>e\<close> for the conditional put, the call
  raises the same \<open>e\<close> and leaves the table alone, unless \<open>e\<close> is the ClientError with the
  code ConditionalCheckFailedException, which becomes the result false. On a store that
  answers, the conflict itself (an item of the key exists) is that code and gives false.
  So the call raises \<open>e\<close> exactly when the store raised \<open>e\<close> and \<open>e\<close> is not the conflict.
\<close>

theorem update_level_db_errors:
  "update_level_db L (Some e) tbl (Some l) =
     (if e = ClientError ''ConditionalCheckFailedException'' then (Inr False, tbl) else (Inl e, tbl))
   \<and> (update_level_db L None tbl (Some l) =
        (if has_key tbl (''Flesk'', dt_timestamp L (time l)) then (Inr False, tbl)
         else (Inr True, overwrite tbl (item_of L ''Flesk'' l))))
   \<and> (fst (update_level_db L fault tbl (Some l)) = Inl e
        \<longleftrightarrow> fault = Some e \<and> e \<noteq> ClientError ''ConditionalCheckFailedException'')"
proof -
  have a: "fst (update_level_db L fault tbl (Some l)) = Inl e
        \<longleftrightarrow> fault = Some e \<and> e \<noteq> ClientError ''ConditionalCheckFailedException''"
    by (cases fault) (auto simp: update_level_db_healthy update_level_db_fault)
  show ?thesis
    by (simp add: a update_level_db_fault update_level_db_healthy overwrite_fresh key_def item_of_def)
qed

theorem update_level_db_errors_witness:
  "update_level_db utc_runtime (Some (ClientError ''ProvisionedThroughputExceededException'')) []
      (Some ex_reading) = (Inl (ClientError ''ProvisionedThroughputExceededException''), [])
   \<and> update_level_db utc_runtime (Some (OtherError ''EndpointConnectionError'')) [ex_item]
      (Some ex_reading) = (Inl (OtherError ''EndpointConnectionError''), [ex_item])
   \<and> update_level_db utc_runtime None [ex_item] (Some ex_reading) = (Inr False, [ex_item])"
proof -
  have hk: "has_key [ex_item] (''Flesk'', 1704103200)"
    by (simp add: has_key_def key_def ex_item_def)
  from update_level_db_errors [where L = utc_runtime and tbl = "[]" and l = ex_reading
        and e = "ClientError ''ProvisionedThroughputExceededException''"]
    update_level_db_errors [where L = utc_runtime and tbl = "[ex_item]" and l = ex_reading
        and e = "OtherError ''EndpointConnectionError''"] hk
  show ?thesis
    by (simp add: ex_reading_timestamp)
qed

subsection \<open>The live path\<close>

lemma str_25017: "str_of_int 25017 = ''25017''"
  by (simp add: str_of_int_def nat_digits.simps digit_char_def)

lemma parse_ex: "iso_parse ''2024-01-01T10:00:00Z'' = Inr (aware_utc 2024 1 1 10 0)"
  by code_simp

lemma dec_152: "fixed_of_str ''1.52'' = Inr (152, 2)"
  by code_simp

lemma dec_03: "fixed_of_str ''0.3'' = Inr (3, 1)"
  by code_simp

lemma sub_ex: "fixed_sub (152, 2) (3, Suc 0) = Inr (122, 2)"
  by (simp add: fixed_sub_def)

lemma other_feed_polled:
  "get_latest_level utc_runtime other_feed 25017 =
     Inr (Some \<lparr>time = aware_utc 2024 1 1 10 0, level = (122, 2)\<rparr>)"
  by (simp add: other_feed_def dict_get_def gauge_level_def str_25017 utc_runtime_def
        parse_ex dec_152 dec_03 sub_ex)

lemma aware_timestamp: "utc_timestamp (aware_utc 2024 1 1 10 0) = 1704103200"
  by code_simp

lemma other_feed_stored:
  "update_level_db utc_runtime None []
     (Some \<lparr>time = aware_utc 2024 1 1 10 0, level = (122, 2)\<rparr>) = (Inr True, [ex_item])"
  by (simp add: update_level_db_healthy has_key_def item_of_def utc_runtime_def aware_timestamp
        ex_item_def)

text \<open>
  Claim C10. A Level is its time and its level and nothing more. Whatever gauge number was
  polled, the conditional put of the polled reading adds no item whose partition key is not
  Flesk, and when it returns true the item (Flesk, timestamp, level) of the reading is in
  the table.
\<close>

theorem live_path_attributed_to_Flesk:
  assumes poll: "get_latest_level L gauges gauge_number = Inr lv"
      and put: "update_level_db L fault tbl lv = (r, tbl')"
  shows "(\<forall>it \<in> set tbl'. it \<in> set tbl \<or> river_name it = ''Flesk'')
       \<and> (r = Inr True \<longrightarrow> (\<exists>l. lv = Some l \<and> item_of L ''Flesk'' l \<in> set tbl'))
       \<and> (\<forall>l :: 'd Level. l = \<lparr>time = time l, level = level l\<rparr>)"
proof -
  have a: "\<forall>it \<in> set tbl'. it \<in> set tbl \<or> river_name it = ''Flesk''"
    using update_level_db_cases [OF put] by (auto simp: item_of_def)
  have b: "r = Inr True \<longrightarrow> (\<exists>l. lv = Some l \<and> item_of L ''Flesk'' l \<in> set tbl')"
  proof
    assume t: "r = Inr True"
    from update_level_db_cases [OF put] show "\<exists>l. lv = Some l \<and> item_of L ''Flesk'' l \<in> set tbl'"
    proof
      assume same: "tbl' = tbl"
      show ?thesis
      proof (cases lv)
        case None
        with put t show ?thesis by (simp add: update_level_db_def)
      next
        case (Some l)
        with put t same show ?thesis
          by (cases fault)
             (auto simp: update_level_db_healthy update_level_db_fault has_key_def split: if_splits)
      qed
    next
      assume "\<exists>l. lv = Some l \<and> r = Inr True \<and> tbl' = tbl @ [item_of L ''Flesk'' l]"
      then show ?thesis by auto
    qed
  qed
  show ?thesis using a b by simp
qed

theorem live_path_attributed_to_Flesk_witness:
  "get_latest_level utc_runtime other_feed 25017 =
     Inr (Some \<lparr>time = aware_utc 2024 1 1 10 0, level = (122, 2)\<rparr>)
   \<and> update_level_db utc_runtime None []
        (Some \<lparr>time = aware_utc 2024 1 1 10 0, level = (122, 2)\<rparr>) = (Inr True, [ex_item])
   \<and> river_name ex_item = ''Flesk''"
  using live_path_attributed_to_Flesk [OF other_feed_polled other_feed_stored]
    other_feed_polled other_feed_stored
  by simp

lemma str_FLESK: "str_of_int FLESK_GAUGE_NUMBER = ''22039''"
  by (simp add: str_of_int_def nat_digits.simps digit_char_def FLESK_GAUGE_NUMBER_def)

lemma get_latest_level_absent:
  assumes "\<forall>g \<in> set gauges. \<exists>no. g ''metadata_station_no'' = Some no \<and> no \<noteq> str_of_int n"
  shows "get_latest_level L gauges n = Inr None"
  using assms by (induction gauges) (auto simp: dict_get_def)

text \<open>
  Claim C4. When every entry of the snapshot names a station other than 22039, the poller
  returns \<^verbatim>\<open>None\<close> and raises nothing. The live handler passes that \<^verbatim>\<open>None\<close> to
  \<open>update_level_db\<close>, which raises AttributeError whatever the store does: the live mode
  ends with an exception, not with the result false. The table is not touched.
\<close>

theorem absent_station_raises:
  assumes "\<forall>g \<in> set gauges. \<exists>no. g ''metadata_station_no'' = Some no \<and> no \<noteq> ''22039''"
  shows "get_latest_level L gauges FLESK_GAUGE_NUMBER = Inr None
       \<and> update_current_levels_table_handler L fault gauges tbl = (Inl AttributeError, tbl)"
proof -
  have "get_latest_level L gauges FLESK_GAUGE_NUMBER = Inr None"
    using assms by (intro get_latest_level_absent) (simp add: str_FLESK)
  then show ?thesis
    by (simp add: update_current_levels_table_handler_def update_level_db_def)
qed

theorem absent_station_raises_witness:
  "map (\<lambda>g. g ''metadata_station_no'') other_feed = [Some ''25017'']
   \<and> get_latest_level utc_runtime other_feed FLESK_GAUGE_NUMBER = Inr None
   \<and> update_current_levels_table_handler utc_runtime None other_feed [ex_item]
       = (Inl AttributeError, [ex_item])
   \<and> update_current_levels_table_handler utc_runtime None [] [ex_item]
       = (Inl AttributeError, [ex_item])"
proof -
  have h: "\<forall>g \<in> set other_feed. \<exists>no. g ''metadata_station_no'' = Some no \<and> no \<noteq> ''22039''"
    by (simp add: other_feed_def)
  have e: "\<forall>g \<in> set ([] :: gauge list). \<exists>no. g ''metadata_station_no'' = Some no \<and> no \<noteq> ''22039''"
    by simp
  have m: "map (\<lambda>g. g ''metadata_station_no'') other_feed = [Some ''25017'']"
    by (simp add: other_feed_def)
  from absent_station_raises [OF h, of utc_runtime None "[ex_item]"]
    absent_station_raises [OF e, of utc_runtime None "[ex_item]"] m
  show ?thesis by simp
qed

subsection \<open>The range query\<close>

lemma since200_timestamp: "dt_timestamp utc_runtime since200 = 200"
  by code_simp

lemma store3_window:
  "get_past_data_dynamo utc_runtime store3 ''Flesk'' since200 =
     [\<lparr>time = naive 1970 1 1 0 5, level = (130, 2)\<rparr>]"
  by code_simp

text \<open>
  Claim C7. The levels returned by \<open>get_past_data_dynamo\<close> are those of the items of the
  named river whose time stamp is greater than the bound \<^verbatim>\<open>int(since_date.timestamp())\<close>,
  one level per such item; items at or below the bound give nothing; the items come in
  ascending order of their time stamps.
\<close>

theorem range_query_exclusive:
  "set (get_past_data_dynamo L tbl name since_date) =
     level_of_item L ` {it \<in> set tbl. river_name it = name \<and> dt_timestamp L since_date < timestamp it}
   \<and> length (get_past_data_dynamo L tbl name since_date) =
       length (filter (\<lambda>it. river_name it = name \<and> dt_timestamp L since_date < timestamp it) tbl)
   \<and> get_past_data_dynamo L (filter (\<lambda>it. timestamp it \<le> dt_timestamp L since_date) tbl) name
         since_date = []
   \<and> sorted (map timestamp (query tbl name (dt_timestamp L since_date)))"
  by (auto simp: get_past_data_dynamo_def query_def filter_empty_conv)

theorem range_query_exclusive_witness:
  "map timestamp store3 = [300, 100, 300, 200]
   \<and> dt_timestamp utc_runtime since200 = 200
   \<and> get_past_data_dynamo utc_runtime store3 ''Flesk'' since200 =
       [\<lparr>time = naive 1970 1 1 0 5, level = (130, 2)\<rparr>]
   \<and> dt_fromtimestamp utc_runtime 300 = naive 1970 1 1 0 5
   \<and> length (filter (\<lambda>it. river_name it = ''Flesk'' \<and> 200 < timestamp it) store3) = 1"
proof -
  have "length (get_past_data_dynamo utc_runtime store3 ''Flesk'' since200) =
       length (filter (\<lambda>it. river_name it = ''Flesk''
                  \<and> dt_timestamp utc_runtime since200 < timestamp it) store3)"
    using range_query_exclusive [of utc_runtime store3 "''Flesk''" since200] by blast
  then have l: "length (filter (\<lambda>it. river_name it = ''Flesk'' \<and> 200 < timestamp it) store3) = 1"
    by (simp only: store3_window since200_timestamp) simp
  have m: "map timestamp store3 = [300, 100, 300, 200]"
    by (simp add: store3_def)
  have f: "dt_fromtimestamp utc_runtime 300 = naive 1970 1 1 0 5"
    by code_simp
  from l m f store3_window since200_timestamp show ?thesis by (simp only: simp_thms)
qed

subsection \<open>The archive importer\<close>

lemma noncomment_rows_iff:
  "noncomment_rows rows = Inr kept \<longleftrightarrow>
     (\<forall>r \<in> set rows. r \<noteq> []) \<and> kept = filter (\<lambda>r. CHR ''#'' \<notin> set (hd r)) rows"
proof (induction rows arbitrary: kept)
  case Nil
  then show ?case by auto
next
  case (Cons r rows)
  show ?case
  proof (cases r)
    case Nil
    then show ?thesis by (simp add: py_index_def)
  next
    case (Cons f fs)
    show ?thesis
    proof (cases "noncomment_rows rows")
      case (Inl e)
      with Cons.IH Cons show ?thesis
        by (auto simp: py_index_def)
    next
      case (Inr rs)
      with Cons.IH [of rs] Cons show ?thesis
        by (auto simp: py_index_def)
    qed
  qed
qed

lemma noncomment_rows_error:
  "noncomment_rows rows = Inl e \<Longrightarrow> e = IndexError \<and> [] \<in> set rows"
  by (induction rows) (auto simp: py_index_def split: if_splits sum.splits)

lemma epa_loop_iff:
  "epa_loop L rows = Inr levels \<longleftrightarrow>
     (\<forall>r \<in> set rows. \<exists>t. row_time r = Inr t) \<and> levels = List.map_filter (row_reading L) rows"
proof (induction rows arbitrary: levels)
  case Nil
  then show ?case by (auto simp: List.map_filter_simps)
next
  case (Cons r rows)
  show ?case
  proof (cases "row_time r")
    case (Inl e)
    then show ?thesis by auto
  next
    case rt: (Inr t)
    show ?thesis
    proof (cases "epa_loop L rows")
      case (Inl e)
      with Cons.IH rt show ?thesis by auto
    next
      case (Inr ls)
      with Cons.IH [of ls] rt show ?thesis
        by (cases "row_level L r") (auto simp: List.map_filter_simps row_reading_def)
    qed
  qed
qed

lemma epa_loop_raises:
  "r \<in> set rows \<Longrightarrow> row_time r = Inl e \<Longrightarrow> \<exists>e'. epa_loop L rows = Inl e'"
  by (cases "epa_loop L rows") (auto simp: epa_loop_iff)

lemma py_slice_last: "0 < n \<Longrightarrow> py_slice_from (- n) xs = drop (length xs - nat n) xs"
  by (simp add: py_slice_from_def)

text \<open>The slice \<^verbatim>\<open>rows[-0:]\<close> is \<^verbatim>\<open>rows[0:]\<close>, the whole list.\<close>

lemma py_slice_zero: "py_slice_from (- 0) xs = xs"
  by (simp add: py_slice_from_def)

lemma length_map_filter_le: "length (List.map_filter f xs) \<le> length xs"
  by (induction xs) (auto simp: List.map_filter_simps split: option.splits)

lemma split_str_nonempty: "split_str c s \<noteq> []"
  by (induction s) (auto split: list.splits)

lemma int_part_Inr:
  "int_part c s i = Inr v \<Longrightarrow> i < length (split_str c s) \<and> py_int (split_str c s ! i) = Some v"
  by (auto simp: int_part_def py_index_def int_of_str_def split: if_splits option.splits)

lemma int_part_Inl:
  "int_part c s i = Inl e \<Longrightarrow> e = IndexError \<or> e = ValueError"
  by (auto simp: int_part_def py_index_def int_of_str_def split: if_splits option.splits)

lemma py_index_split0: "py_index (split_str c s) 0 = Inr (hd (split_str c s))"
  using split_str_nonempty [of c s] by (cases "split_str c s") (simp_all add: py_index_def)

lemma row_time_fields:
  "row_time (date # f1 # others) =
     (case int_part CHR ''-'' date 0 of Inl e \<Rightarrow> Inl e | Inr y \<Rightarrow>
     (case int_part CHR ''-'' date 1 of Inl e \<Rightarrow> Inl e | Inr m \<Rightarrow>
     (case int_part CHR ''-'' date 2 of Inl e \<Rightarrow> Inl e | Inr d \<Rightarrow>
     (case int_part CHR '':'' (hd (split_str CHR '';'' f1)) 0 of Inl e \<Rightarrow> Inl e | Inr h \<Rightarrow>
     (case int_part CHR '':'' (hd (split_str CHR '';'' f1)) 1 of Inl e \<Rightarrow> Inl e | Inr mi \<Rightarrow>
        new_datetime y m d h mi)))))"
proof -
  have a: "py_index (date # f1 # others) 0 = Inr date" "py_index (date # f1 # others) 1 = Inr f1"
    by (simp_all add: py_index_def)
  show ?thesis
    unfolding row_time_def by (simp only: a py_index_split0 sum.case)
qed

lemma row_time_Inr:
  assumes "row_time (date # f1 # others) = Inr x"
  shows "\<exists>y m d h mi.
           int_part CHR ''-'' date 0 = Inr y \<and> int_part CHR ''-'' date 1 = Inr m
         \<and> int_part CHR ''-'' date 2 = Inr d
         \<and> int_part CHR '':'' (hd (split_str CHR '';'' f1)) 0 = Inr h
         \<and> int_part CHR '':'' (hd (split_str CHR '';'' f1)) 1 = Inr mi
         \<and> new_datetime y m d h mi = Inr x"
  using assms unfolding row_time_fields by (simp split: sum.splits)

lemma row_time_Inl_early:
  assumes "row_time (date # f1 # others) = Inl e"
      and "\<not> (\<exists>y m d h mi.
           int_part CHR ''-'' date 0 = Inr y \<and> int_part CHR ''-'' date 1 = Inr m
         \<and> int_part CHR ''-'' date 2 = Inr d
         \<and> int_part CHR '':'' (hd (split_str CHR '';'' f1)) 0 = Inr h
         \<and> int_part CHR '':'' (hd (split_str CHR '';'' f1)) 1 = Inr mi)"
  shows "e = IndexError \<or> e = ValueError"
  using assms unfolding row_time_fields
  by (auto split: sum.splits dest: int_part_Inl)

lemma noncomment_rows_append:
  "noncomment_rows (a @ b) =
     (case noncomment_rows a of
        Inl e \<Rightarrow> Inl e
      | Inr ka \<Rightarrow> (case noncomment_rows b of Inl e \<Rightarrow> Inl e | Inr kb \<Rightarrow> Inr (ka @ kb)))"
proof (induction a)
  case Nil
  then show ?case by (simp split: sum.splits)
next
  case (Cons r a)
  show ?case
  proof (cases r)
    case Nil
    then show ?thesis by (simp add: py_index_def)
  next
    case (Cons f fs)
    with Cons.IH show ?thesis
      by (cases "noncomment_rows a"; cases "noncomment_rows b")
         (simp_all add: py_index_def noncomment_rows_error)
  qed
qed

lemma epa_loop_append:
  "epa_loop L (a @ b) =
     (case epa_loop L a of
        Inl e \<Rightarrow> Inl e
      | Inr la \<Rightarrow> (case epa_loop L b of Inl e \<Rightarrow> Inl e | Inr lb \<Rightarrow> Inr (la @ lb)))"
  by (induction a) (auto split: sum.splits)

lemma noncomment_rows_single:
  "noncomment_rows [f # fs] = Inr (if CHR ''#'' \<notin> set f then [f # fs] else [])"
  by (simp add: py_index_def)

lemma csv_row_comment: "\<exists>f fs. csv_row (CHR ''#'' # rest_of_line) = f # fs \<and> CHR ''#'' \<in> set f"
  by (cases "split_str CHR '' '' rest_of_line") (auto simp: csv_row_def)

lemma row_level_fields:
  "split_str CHR '';'' f1 = tm # v # rest \<Longrightarrow> row_level L (date # f1 # others) = Decimal L v"
  by (simp add: row_level_def py_index_def)

lemma archive10_last3:
  "get_past_data_epa utc_runtime archive10 3 =
     Inr [reading_at 1 45 107, reading_at 2 0 108, reading_at 2 15 109]"
  by code_simp

text \<open>
  Claim C5, as amended. For a requested count \<open>n\<close> of at least 1: the import returns
  \<open>levels\<close> exactly when no row of the file is empty, the date and time fields of each of
  the last \<open>n\<close> rows without \<^verbatim>\<open>#\<close> in their first field build a datetime, and \<open>levels\<close> are
  the readings of those of these rows whose value parses, in the order of the file; then
  there are at most \<open>n\<close> levels.
\<close>

theorem last_n_readings:
  assumes n: "0 < n"
  shows "(get_past_data_epa L rows n = Inr levels \<longleftrightarrow>
            (\<forall>r \<in> set rows. r \<noteq> [])
          \<and> (\<forall>r \<in> set (drop (length (filter (\<lambda>r. CHR ''#'' \<notin> set (hd r)) rows) - nat n)
                            (filter (\<lambda>r. CHR ''#'' \<notin> set (hd r)) rows)).
                \<exists>t. row_time r = Inr t)
          \<and> levels = List.map_filter (row_reading L)
                (drop (length (filter (\<lambda>r. CHR ''#'' \<notin> set (hd r)) rows) - nat n)
                      (filter (\<lambda>r. CHR ''#'' \<notin> set (hd r)) rows)))
       \<and> (get_past_data_epa L rows n = Inr levels \<longrightarrow> int (length levels) \<le> n)"
proof -
  define kept where "kept = filter (\<lambda>r. CHR ''#'' \<notin> set (hd r)) rows"
  define lastn where "lastn = drop (length kept - nat n) kept"
  have eq: "get_past_data_epa L rows n = Inr levels \<longleftrightarrow>
            (\<forall>r \<in> set rows. r \<noteq> []) \<and> (\<forall>r \<in> set lastn. \<exists>t. row_time r = Inr t)
          \<and> levels = List.map_filter (row_reading L) lastn"
  proof (cases "noncomment_rows rows")
    case (Inl e)
    with noncomment_rows_error [OF Inl] show ?thesis
      by (auto simp: get_past_data_epa_def)
  next
    case (Inr ks)
    then have all: "\<forall>r \<in> set rows. r \<noteq> []" and ks: "ks = kept"
      by (simp_all add: noncomment_rows_iff kept_def)
    from Inr ks all show ?thesis
      by (simp add: get_past_data_epa_def py_slice_last [OF n] epa_loop_iff lastn_def)
  qed
  have len: "get_past_data_epa L rows n = Inr levels \<longrightarrow> int (length levels) \<le> n"
  proof
    assume "get_past_data_epa L rows n = Inr levels"
    with eq have "levels = List.map_filter (row_reading L) lastn" by simp
    then have "length levels \<le> length lastn" by (simp add: length_map_filter_le)
    also have "length lastn \<le> nat n" by (simp add: lastn_def)
    finally show "int (length levels) \<le> n" using n by simp
  qed
  from eq len show ?thesis by (simp only: kept_def lastn_def) 
qed

theorem last_n_readings_witness:
  "(0 :: int) < 3
   \<and> get_past_data_epa utc_runtime archive10 3 =
       Inr [reading_at 1 45 107, reading_at 2 0 108, reading_at 2 15 109]
   \<and> int (length [reading_at 1 45 107, reading_at 2 0 108, reading_at 2 15 109]) \<le> 3"
proof -
  have n: "(0 :: int) < 3" by simp
  from last_n_readings [OF n, of utc_runtime archive10
      "[reading_at 1 45 107, reading_at 2 0 108, reading_at 2 15 109]"]
  have "get_past_data_epa utc_runtime archive10 3 =
          Inr [reading_at 1 45 107, reading_at 2 0 108, reading_at 2 15 109] \<longrightarrow>
        int (length [reading_at 1 45 107, reading_at 2 0 108, reading_at 2 15 109]) \<le> 3"
    by (rule conjunct2)
  with archive10_last3 n show ?thesis by (simp only: simp_thms)
qed

text \<open>
  The claim as first stated fails: for the count 0 the slice \<^verbatim>\<open>rows[-0:]\<close> is the whole
  list, so an archive of two rows gives two readings; and an archive whose second of three
  rows has the month \<^verbatim>\<open>0x\<close> gives no readings at all, the import raises ValueError.
\<close>

theorem last_n_counterexample:
  "get_past_data_epa utc_runtime archive2 0 = Inr [reading_at 0 0 100, reading_at 0 15 101]
   \<and> \<not> int (length [reading_at 0 0 100, reading_at 0 15 101]) \<le> 0
   \<and> get_past_data_epa utc_runtime archive_bad_date 3 = Inl ValueError"
  by code_simp

text \<open>
  Claim C9. Let the count be at least 1 and let a row with at least two fields be among
  the last \<open>n\<close> rows without \<^verbatim>\<open>#\<close> in their first field. If its date has fewer than three
  parts between \<^verbatim>\<open>-\<close>, or its time fewer than two parts between \<^verbatim>\<open>:\<close>, or one of these
  parts is not an integer, then building its datetime raises IndexError or ValueError,
  and the whole import raises: no list of levels is returned.
\<close>

theorem malformed_date_time_raises:
  assumes n: "0 < n"
      and sel: "row \<in> set (drop (length (filter (\<lambda>r. CHR ''#'' \<notin> set (hd r)) rows) - nat n)
                              (filter (\<lambda>r. CHR ''#'' \<notin> set (hd r)) rows))"
      and row: "row = date # f1 # others"
      and bad: "length (split_str CHR ''-'' date) < 3
              \<or> length (split_str CHR '':'' (hd (split_str CHR '';'' f1))) < 2
              \<or> (\<exists>p \<in> set (take 3 (split_str CHR ''-'' date))
                       \<union> set (take 2 (split_str CHR '':'' (hd (split_str CHR '';'' f1)))).
                    py_int p = None)"
  shows "(row_time row = Inl IndexError \<or> row_time row = Inl ValueError)
       \<and> (\<exists>e. get_past_data_epa L rows n = Inl e)"
proof -
  let ?d = "split_str CHR ''-'' date"
  let ?t = "split_str CHR '':'' (hd (split_str CHR '';'' f1))"
  have none: "\<not> (\<exists>y m d h mi.
           int_part CHR ''-'' date 0 = Inr y \<and> int_part CHR ''-'' date 1 = Inr m
         \<and> int_part CHR ''-'' date 2 = Inr d
         \<and> int_part CHR '':'' (hd (split_str CHR '';'' f1)) 0 = Inr h
         \<and> int_part CHR '':'' (hd (split_str CHR '';'' f1)) 1 = Inr mi)"
  proof
    assume "\<exists>y m d h mi.
           int_part CHR ''-'' date 0 = Inr y \<and> int_part CHR ''-'' date 1 = Inr m
         \<and> int_part CHR ''-'' date 2 = Inr d
         \<and> int_part CHR '':'' (hd (split_str CHR '';'' f1)) 0 = Inr h
         \<and> int_part CHR '':'' (hd (split_str CHR '';'' f1)) 1 = Inr mi"
    then obtain y m d h mi where
      p: "int_part CHR ''-'' date 0 = Inr y" "int_part CHR ''-'' date 1 = Inr m"
         "int_part CHR ''-'' date 2 = Inr d"
         "int_part CHR '':'' (hd (split_str CHR '';'' f1)) 0 = Inr h"
         "int_part CHR '':'' (hd (split_str CHR '';'' f1)) 1 = Inr mi"
      by blast
    from p(3) have ld: "2 < length ?d" by (simp add: int_part_Inr)
    from p(5) have lt: "1 < length ?t" by (simp add: int_part_Inr)
    have dparts: "\<forall>i < 3. py_int (?d ! i) \<noteq> None"
    proof (intro allI impI)
      fix i :: nat assume "i < 3"
      then consider "i = 0" | "i = 1" | "i = 2" by linarith
      then show "py_int (?d ! i) \<noteq> None"
        using int_part_Inr [OF p(1)] int_part_Inr [OF p(2)] int_part_Inr [OF p(3)]
        by cases simp_all
    qed
    have tparts: "\<forall>i < 2. py_int (?t ! i) \<noteq> None"
    proof (intro allI impI)
      fix i :: nat assume "i < 2"
      then consider "i = 0" | "i = 1" by linarith
      then show "py_int (?t ! i) \<noteq> None"
        using int_part_Inr [OF p(4)] int_part_Inr [OF p(5)]
        by cases simp_all
    qed
    have "\<forall>p \<in> set (take 3 ?d) \<union> set (take 2 ?t). py_int p \<noteq> None"
      using dparts tparts ld lt by (auto simp: in_set_conv_nth)
    with bad ld lt show False by auto
  qed
  have err: "\<exists>e. row_time row = Inl e"
  proof (cases "row_time row")
    case (Inl e)
    then show ?thesis by simp
  next
    case (Inr x)
    with row_time_Inr [of date f1 others x] none row show ?thesis by blast
  qed
  then obtain e where e: "row_time row = Inl e" by blast
  with row_time_Inl_early [of date f1 others e] none row
  have kind: "row_time row = Inl IndexError \<or> row_time row = Inl ValueError" by auto
  have "\<exists>e'. get_past_data_epa L rows n = Inl e'"
  proof (cases "noncomment_rows rows")
    case (Inl e')
    then show ?thesis by (simp add: get_past_data_epa_def)
  next
    case (Inr kept)
    then have k: "kept = filter (\<lambda>r. CHR ''#'' \<notin> set (hd r)) rows"
      by (simp add: noncomment_rows_iff)
    from sel have "row \<in> set (py_slice_from (- n) kept)"
      by (simp add: py_slice_last [OF n] k)
    from epa_loop_raises [OF this e, of L] Inr show ?thesis
      by (simp add: get_past_data_epa_def)
  qed
  with kind show ?thesis by simp
qed

lemma bad_date_selected:
  "[''2024-0x-01'', ''10:15:00;1.25;200'']
     \<in> set (drop (length (filter (\<lambda>r. CHR ''#'' \<notin> set (hd r)) archive_bad_date) - nat 3000)
              (filter (\<lambda>r. CHR ''#'' \<notin> set (hd r)) archive_bad_date))"
  by code_simp

lemma bad_date_part: "py_int ''0x'' = None"
  by code_simp

lemma bad_date_parts:
  "length (split_str CHR ''-'' ''2024-0x-01'') < 3
   \<or> length (split_str CHR '':'' (hd (split_str CHR '';'' ''10:15:00;1.25;200''))) < 2
   \<or> (\<exists>p \<in> set (take 3 (split_str CHR ''-'' ''2024-0x-01''))
            \<union> set (take 2 (split_str CHR '':'' (hd (split_str CHR '';'' ''10:15:00;1.25;200'')))).
         py_int p = None)"
  by code_simp

lemma bad_date_result: "get_past_data_epa utc_runtime archive_bad_date 3000 = Inl ValueError"
  by code_simp

theorem malformed_date_time_raises_witness:
  "(0 :: int) < 3000
   \<and> [''2024-0x-01'', ''10:15:00;1.25;200'']
       \<in> set (drop (length (filter (\<lambda>r. CHR ''#'' \<notin> set (hd r)) archive_bad_date) - nat 3000)
                (filter (\<lambda>r. CHR ''#'' \<notin> set (hd r)) archive_bad_date))
   \<and> py_int ''0x'' = None
   \<and> (row_time [''2024-0x-01'', ''10:15:00;1.25;200''] = Inl IndexError
        \<or> row_time [''2024-0x-01'', ''10:15:00;1.25;200''] = Inl ValueError)
   \<and> get_past_data_epa utc_runtime archive_bad_date 3000 = Inl ValueError"
proof -
  have n: "(0 :: int) < 3000" by simp
  have r: "[''2024-0x-01'', ''10:15:00;1.25;200''] = ''2024-0x-01'' # ''10:15:00;1.25;200'' # []"
    by simp
  from malformed_date_time_raises [OF n bad_date_selected r bad_date_parts, of utc_runtime]
  have "row_time [''2024-0x-01'', ''10:15:00;1.25;200''] = Inl IndexError
        \<or> row_time [''2024-0x-01'', ''10:15:00;1.25;200''] = Inl ValueError"
    by (rule conjunct1)
  with n bad_date_selected bad_date_part bad_date_result show ?thesis
    by (simp only: simp_thms)
qed

lemma mixed_value_field: "split_str CHR '';'' ''10:15:00;---;-1'' = ''10:15:00'' # ''---'' # [''-1'']"
  by code_simp

lemma mixed_row_time: "row_time [''2024-01-01'', ''10:15:00;---;-1''] = Inr (naive 2024 1 1 10 15)"
  by code_simp

lemma mixed_value_fails: "Decimal utc_runtime ''---'' = Inl InvalidOperation"
  by code_simp

text \<open>
  Claim C8. For any file without empty rows and any requested count, take a row with a
  date, a time and a value field that stands among the rows the loop visits, with rows \<open>a\<close>
  before it and rows \<open>b\<close> after it, and whose date and time build a datetime. If its value
  does not parse as a decimal, the import returns exactly what the loop returns on the other
  visited rows \<open>a\<close> and \<open>b\<close>: the row adds nothing and nothing is raised for it. If its value
  parses and the import returns, the reading of the row stands in the result between the
  readings of \<open>a\<close> and those of \<open>b\<close>. A line that starts with \<^verbatim>\<open>#\<close>, anywhere in any file and
  for any count, changes nothing.
\<close>

theorem malformed_value_dropped:
  assumes kept: "noncomment_rows rows = Inr kept"
      and sel: "py_slice_from (- n) kept = a @ row # b"
      and row: "row = date # f1 # others"
      and val: "split_str CHR '';'' f1 = tm # v # rest"
      and tim: "row_time row = Inr t"
  shows "(\<forall>e. Decimal L v = Inl e \<longrightarrow> get_past_data_epa L rows n = epa_loop L (a @ b))
       \<and> get_past_data_epa L (pre @ csv_row (CHR ''#'' # rest_of_line) # post) m
           = get_past_data_epa L (pre @ post) m
       \<and> (\<forall>x levels. Decimal L v = Inr x \<and> get_past_data_epa L rows n = Inr levels \<longrightarrow>
            (\<exists>la lb. epa_loop L a = Inr la \<and> epa_loop L b = Inr lb
               \<and> levels = la @ \<lparr>time = t, level = x\<rparr> # lb))"
proof -
  have rl: "row_level L row = Decimal L v"
    using row_level_fields [OF val] row by simp
  have run: "get_past_data_epa L rows n = epa_loop L (a @ row # b)"
    by (simp add: get_past_data_epa_def kept sel)
  have split3: "\<And>r xs ys. xs @ r # ys = xs @ [r] @ ys" by simp
  have a: "\<forall>e. Decimal L v = Inl e \<longrightarrow> get_past_data_epa L rows n = epa_loop L (a @ b)"
  proof (intro allI impI)
    fix e assume d: "Decimal L v = Inl e"
    show "get_past_data_epa L rows n = epa_loop L (a @ b)"
      unfolding run split3 [of a row b]
      using tim rl d by (auto simp: epa_loop_append split: sum.splits)
  qed
  have b: "get_past_data_epa L (pre @ csv_row (CHR ''#'' # rest_of_line) # post) m
           = get_past_data_epa L (pre @ post) m"
  proof -
    from csv_row_comment [of rest_of_line] obtain f fs
      where c: "csv_row (CHR ''#'' # rest_of_line) = f # fs" and h: "CHR ''#'' \<in> set f" by blast
    have "noncomment_rows (pre @ csv_row (CHR ''#'' # rest_of_line) # post)
            = noncomment_rows (pre @ post)"
      unfolding split3 [of pre "csv_row (CHR ''#'' # rest_of_line)" post] noncomment_rows_append c
        noncomment_rows_single
      using h by (auto simp: py_index_def split: sum.splits)
    then show ?thesis by (simp add: get_past_data_epa_def)
  qed
  have c: "\<forall>x levels. Decimal L v = Inr x \<and> get_past_data_epa L rows n = Inr levels \<longrightarrow>
            (\<exists>la lb. epa_loop L a = Inr la \<and> epa_loop L b = Inr lb
               \<and> levels = la @ \<lparr>time = t, level = x\<rparr> # lb)"
  proof (intro allI impI, elim conjE)
    fix x levels
    assume d: "Decimal L v = Inr x" and r: "get_past_data_epa L rows n = Inr levels"
    from r have "epa_loop L (a @ [row] @ b) = Inr levels"
      unfolding run split3 [of a row b] .
    with tim rl d show "\<exists>la lb. epa_loop L a = Inr la \<and> epa_loop L b = Inr lb
               \<and> levels = la @ \<lparr>time = t, level = x\<rparr> # lb"
      by (auto simp: epa_loop_append split: sum.splits)
  qed
  from a b c show ?thesis by blast
qed

lemma mixed_kept:
  "noncomment_rows archive_mixed =
     Inr [[''2024-01-01'', ''10:00:00;1.23;200''], [''2024-01-01'', ''10:15:00;---;-1'']]"
  by code_simp

lemma mixed_selected:
  "py_slice_from (- 3000)
       [[''2024-01-01'', ''10:00:00;1.23;200''], [''2024-01-01'', ''10:15:00;---;-1'']]
     = [[''2024-01-01'', ''10:00:00;1.23;200'']] @ [''2024-01-01'', ''10:15:00;---;-1''] # []"
  by code_simp

lemma mixed_others:
  "epa_loop utc_runtime ([[''2024-01-01'', ''10:00:00;1.23;200'']] @ []) = Inr [reading_at 10 0 123]"
  by code_simp

theorem malformed_value_dropped_witness:
  "noncomment_rows archive_mixed =
     Inr [[''2024-01-01'', ''10:00:00;1.23;200''], [''2024-01-01'', ''10:15:00;---;-1'']]
   \<and> split_str CHR '';'' ''10:15:00;---;-1'' = ''10:15:00'' # ''---'' # [''-1'']
   \<and> row_time [''2024-01-01'', ''10:15:00;---;-1''] = Inr (naive 2024 1 1 10 15)
   \<and> Decimal utc_runtime ''---'' = Inl InvalidOperation
   \<and> get_past_data_epa utc_runtime archive_mixed 3000 = Inr [reading_at 10 0 123]"
proof -
  have r: "[''2024-01-01'', ''10:15:00;---;-1''] = ''2024-01-01'' # ''10:15:00;---;-1'' # []"
    by simp
  from malformed_value_dropped [OF mixed_kept mixed_selected r mixed_value_field mixed_row_time,
      of utc_runtime]
  have "\<forall>e. Decimal utc_runtime ''---'' = Inl e \<longrightarrow>
          get_past_data_epa utc_runtime archive_mixed 3000
          = epa_loop utc_runtime ([[''2024-01-01'', ''10:00:00;1.23;200'']] @ [])"
    by (rule conjunct1)
  with mixed_value_fails
  have "get_past_data_epa utc_runtime archive_mixed 3000 = Inr [reading_at 10 0 123]"
    by (simp only: mixed_others)
  with mixed_kept mixed_value_field mixed_row_time mixed_value_fails show ?thesis
    by (simp only: simp_thms)
qed

text \<open>
  The row is dropped after the last rows were selected: when the unparseable row is the
  only row the loop visits, the result is empty and still no exception.
\<close>

lemma bad_value_alone_in_window:
  "get_past_data_epa utc_runtime archive_mixed 1 = Inr []
   \<and> get_past_data_epa utc_runtime archive_mixed 2 = Inr [reading_at 10 0 123]"
  by code_simp

subsection \<open>Backfill\<close>

lemma handler_run:
  assumes "get_past_data_epa L rows 3000 = Inr epa" and "sub_days now 50 = Inr since"
  shows "update_past_levels_table_handler L rows now tbl =
           (if new_river_levels epa (get_past_data_dynamo L tbl ''Flesk'' since) \<noteq> []
            then Inr (True, batch_update_level_db L tbl ''Flesk''
                         (new_river_levels epa (get_past_data_dynamo L tbl ''Flesk'' since)))
            else Inr (False, tbl))"
  using assms by (simp add: update_past_levels_table_handler_def Let_def)

lemma batch_update_nil: "batch_update_level_db L tbl name [] = tbl"
  by (simp add: batch_update_level_db_def)

lemma archive3_levels:
  "get_past_data_epa utc_runtime archive3 3000 =
     Inr [reading_at 10 0 123,
          reading_at 10 15 125,
          reading_at 10 30 127]"
  by code_simp

lemma since_ex: "sub_days (naive 2024 1 2 0 0) 50 = Inr (naive 2023 11 13 0 0)"
  by code_simp

lemma since_ex2: "sub_days (naive 2024 1 2 0 5) 50 = Inr (naive 2023 11 13 0 5)"
  by code_simp

lemma window12:
  "get_past_data_dynamo utc_runtime store12 ''Flesk'' (naive 2023 11 13 0 0) =
     [reading_at 10 0 123,
      reading_at 10 15 125]"
  by code_simp

lemma new12:
  "new_river_levels
     [reading_at 10 0 123,
      reading_at 10 15 125,
      reading_at 10 30 127]
     [reading_at 10 0 123,
      reading_at 10 15 125]
   = [reading_at 10 30 127]"
  by code_simp

lemma batch3:
  "batch_update_level_db utc_runtime store12 ''Flesk''
     [reading_at 10 30 127] = store12 @ [item3]"
  by code_simp

lemma window123:
  "get_past_data_dynamo utc_runtime (store12 @ [item3]) ''Flesk'' (naive 2023 11 13 0 5) =
     [reading_at 10 0 123,
      reading_at 10 15 125,
      reading_at 10 30 127]"
  by code_simp

text \<open>
  Claim C2. The new levels computed by the backfill handler are the levels of the archive
  whose time is the time of no level of the window, each as often and in the order it
  stands in the archive. The handler, when the import and the window query succeed,
  reports whether that list is non-empty and leaves the table as the batch writer leaves it
  after putting exactly that list.
\<close>

theorem backfill_new_set:
  fixes epa_levels dynamo_levels :: "'d Level list"
  shows "set (new_river_levels epa_levels dynamo_levels)
     = {l \<in> set epa_levels. time l \<notin> time ` set dynamo_levels}
   \<and> new_river_levels epa_levels dynamo_levels
     = filter (\<lambda>l. \<forall>d \<in> set dynamo_levels. time d \<noteq> time l) epa_levels
   \<and> (get_past_data_epa L rows 3000 = Inr epa_levels \<and> sub_days now 50 = Inr since
        \<and> dynamo_levels = get_past_data_dynamo L tbl ''Flesk'' since \<longrightarrow>
      update_past_levels_table_handler L rows now tbl =
        Inr (new_river_levels epa_levels dynamo_levels \<noteq> [],
             batch_update_level_db L tbl ''Flesk'' (new_river_levels epa_levels dynamo_levels)))"
proof -
  have a: "set (new_river_levels epa_levels dynamo_levels)
     = {l \<in> set epa_levels. time l \<notin> time ` set dynamo_levels}"
    by (auto simp: new_river_levels_def)
  have b: "new_river_levels epa_levels dynamo_levels
     = filter (\<lambda>l. \<forall>d \<in> set dynamo_levels. time d \<noteq> time l) epa_levels"
  proof -
    have "\<And>l :: 'd Level. (time l \<notin> set (map time dynamo_levels)) = (\<forall>d\<in>set dynamo_levels. time d \<noteq> time l)"
      by (metis image_iff set_map)
    then show ?thesis by (simp add: new_river_levels_def)
  qed
  have c: "get_past_data_epa L rows 3000 = Inr epa_levels \<and> sub_days now 50 = Inr since
        \<and> dynamo_levels = get_past_data_dynamo L tbl ''Flesk'' since \<longrightarrow>
      update_past_levels_table_handler L rows now tbl =
        Inr (new_river_levels epa_levels dynamo_levels \<noteq> [],
             batch_update_level_db L tbl ''Flesk'' (new_river_levels epa_levels dynamo_levels))"
    by (auto simp: handler_run batch_update_nil)
  from a b c show ?thesis by blast
qed

theorem backfill_new_set_witness:
  "get_past_data_epa utc_runtime archive3 3000 =
     Inr [reading_at 10 0 123, reading_at 10 15 125, reading_at 10 30 127]
   \<and> sub_days (naive 2024 1 2 0 0) 50 = Inr (naive 2023 11 13 0 0)
   \<and> get_past_data_dynamo utc_runtime store12 ''Flesk'' (naive 2023 11 13 0 0) =
       [reading_at 10 0 123, reading_at 10 15 125]
   \<and> new_river_levels [reading_at 10 0 123, reading_at 10 15 125, reading_at 10 30 127]
        [reading_at 10 0 123, reading_at 10 15 125] = [reading_at 10 30 127]
   \<and> update_past_levels_table_handler utc_runtime archive3 (naive 2024 1 2 0 0) store12 =
       Inr (True, store12 @ [item3])"
proof -
  note inst = backfill_new_set [where L = utc_runtime and rows = archive3
        and now = "naive 2024 1 2 0 0" and since = "naive 2023 11 13 0 0" and tbl = store12
        and epa_levels = "[reading_at 10 0 123, reading_at 10 15 125, reading_at 10 30 127]"
        and dynamo_levels = "[reading_at 10 0 123, reading_at 10 15 125]",
        THEN conjunct2, THEN conjunct2, rule_format]
  have "update_past_levels_table_handler utc_runtime archive3 (naive 2024 1 2 0 0) store12 =
        Inr (new_river_levels [reading_at 10 0 123, reading_at 10 15 125, reading_at 10 30 127]
               [reading_at 10 0 123, reading_at 10 15 125] \<noteq> [],
             batch_update_level_db utc_runtime store12 ''Flesk''
               (new_river_levels [reading_at 10 0 123, reading_at 10 15 125, reading_at 10 30 127]
                  [reading_at 10 0 123, reading_at 10 15 125]))"
    by (rule inst) (simp only: archive3_levels since_ex window12 simp_thms)
  then have "update_past_levels_table_handler utc_runtime archive3 (naive 2024 1 2 0 0) store12 =
       Inr (True, store12 @ [item3])"
    by (simp only: new12 batch3) simp
  with archive3_levels since_ex window12 new12 show ?thesis by (simp only: simp_thms)
qed

lemma new_river_levels_empty:
  fixes epa :: "'d Level list"
  shows "new_river_levels epa window = [] \<longleftrightarrow> time ` set epa \<subseteq> time ` set window"
  by (auto simp: new_river_levels_def filter_empty_conv)

lemma new_river_levels_times:
  fixes epa :: "'d Level list"
  shows "time ` set epa \<subseteq> time ` set window \<union> time ` set (new_river_levels epa window)"
  by (auto simp: new_river_levels_def)

lemma keys_batch_update:
  "key ` set (batch_update_level_db L tbl name ls)
     = key ` set tbl \<union> key ` item_of L name ` set ls"
proof (induction ls arbitrary: tbl)
  case Nil
  then show ?case by (simp add: batch_update_level_db_def)
next
  case (Cons l ls)
  have "batch_update_level_db L tbl name (l # ls)
          = batch_update_level_db L (overwrite tbl (item_of L name l)) name ls"
    by (simp add: batch_update_level_db_def)
  moreover have "key ` set (overwrite tbl (item_of L name l))
          = insert (key (item_of L name l)) (key ` set tbl)"
    by (auto simp: overwrite_def)
  ultimately show ?case using Cons.IH [of "overwrite tbl (item_of L name l)"] by auto
qed

lemma window_times:
  "time ` set (get_past_data_dynamo L tbl name since)
     = (\<lambda>k. dt_fromtimestamp L (snd k))
         ` {k \<in> key ` set tbl. fst k = name \<and> dt_timestamp L since < snd k}"
  by (force simp: get_past_data_dynamo_def query_def level_of_item_def key_def image_iff)

text \<open>
  When the two runs read the same clock value, the window of the second run holds every
  time of the window of the first; and it holds the time of every level the first run
  wrote, provided the conversion to a time stamp and back returns that time and the time
  stamp lies above the bound of the window.
\<close>

lemma window_kept:
  "time ` set (get_past_data_dynamo L tbl name since)
     \<subseteq> time ` set (get_past_data_dynamo L (batch_update_level_db L tbl name' ls) name since)"
  unfolding window_times keys_batch_update by blast

lemma written_in_window:
  fixes ls :: "'d Level list"
  assumes "\<forall>l \<in> set ls. dt_fromtimestamp L (dt_timestamp L (time l)) = time l
                       \<and> dt_timestamp L since < dt_timestamp L (time l)"
  shows "time ` set ls
           \<subseteq> time ` set (get_past_data_dynamo L (batch_update_level_db L tbl name ls) name since)"
proof
  fix t assume "t \<in> time ` set ls"
  then obtain l where l: "l \<in> set ls" and t: "t = time l" by (metis imageE)
  have k: "key (item_of L name l) = (name, dt_timestamp L (time l))"
    by (simp add: key_def item_of_def)
  from l have "(name, dt_timestamp L (time l)) \<in> key ` set (batch_update_level_db L tbl name ls)"
    unfolding keys_batch_update using k by (metis UnI2 imageI)
  with assms l have "dt_fromtimestamp L (snd (name, dt_timestamp L (time l)))
      \<in> (\<lambda>k. dt_fromtimestamp L (snd k))
         ` {k \<in> key ` set (batch_update_level_db L tbl name ls).
              fst k = name \<and> dt_timestamp L since < snd k}"
    by (intro imageI) simp
  with assms l t show "t \<in> time ` set (get_past_data_dynamo L (batch_update_level_db L tbl name ls) name since)"
    unfolding window_times by simp
qed

lemma second_run_quiet:
  fixes L :: "'d runtime"
  assumes epa: "get_past_data_epa L rows 3000 = Inr epa"
      and s2: "sub_days now2 50 = Inr since2"
      and writes: "time ` set (new_river_levels epa window1)
                     \<subseteq> time ` set (get_past_data_dynamo L tbl1 ''Flesk'' since2)"
      and keeps: "time ` set window1 \<subseteq> time ` set (get_past_data_dynamo L tbl1 ''Flesk'' since2)"
  shows "update_past_levels_table_handler L rows now2 tbl1 = Inr (False, tbl1)"
proof -
  have "time ` set epa \<subseteq> time ` set (get_past_data_dynamo L tbl1 ''Flesk'' since2)"
    using new_river_levels_times [of epa window1] writes keeps
    by (meson Un_least subset_trans)
  then have "new_river_levels epa (get_past_data_dynamo L tbl1 ''Flesk'' since2) = []"
    by (simp add: new_river_levels_empty)
  then show ?thesis
    by (simp add: handler_run [OF epa s2])
qed

text \<open>
  Claim C3. Let a first run of the backfill handler return, and let a second run read the
  same archive and a window that holds the times of the window of the first run and the
  times of the levels the first run wrote. Then the second run reports false and returns
  the table of the first run as it is: nothing is written, no item is added. More
  generally, whenever the list of new levels is empty the handler reports false and
  returns its table unchanged.
\<close>

theorem backfill_idempotent:
  fixes L :: "'d runtime"
  assumes epa: "get_past_data_epa L rows 3000 = Inr epa"
      and s1: "sub_days now1 50 = Inr since1"
      and s2: "sub_days now2 50 = Inr since2"
      and run1: "update_past_levels_table_handler L rows now1 tbl = Inr (r1, tbl1)"
      and writes: "time ` set (new_river_levels epa (get_past_data_dynamo L tbl ''Flesk'' since1))
                     \<subseteq> time ` set (get_past_data_dynamo L tbl1 ''Flesk'' since2)"
      and keeps: "time ` set (get_past_data_dynamo L tbl ''Flesk'' since1)
                     \<subseteq> time ` set (get_past_data_dynamo L tbl1 ''Flesk'' since2)"
  shows "update_past_levels_table_handler L rows now2 tbl1 = Inr (False, tbl1)
       \<and> (\<forall>t now since. sub_days now 50 = Inr since
             \<and> new_river_levels epa (get_past_data_dynamo L t ''Flesk'' since) = [] \<longrightarrow>
            update_past_levels_table_handler L rows now t = Inr (False, t))"
proof -
  have a: "update_past_levels_table_handler L rows now2 tbl1 = Inr (False, tbl1)"
    by (rule second_run_quiet [OF epa s2 writes keeps])
  have b: "\<forall>t now since. sub_days now 50 = Inr since
             \<and> new_river_levels epa (get_past_data_dynamo L t ''Flesk'' since) = [] \<longrightarrow>
            update_past_levels_table_handler L rows now t = Inr (False, t)"
    by (simp add: handler_run [OF epa])
  from a b show ?thesis by (rule conjI)
qed

lemma run1_ex:
  "update_past_levels_table_handler utc_runtime archive3 (naive 2024 1 2 0 0) store12 =
     Inr (True, store12 @ [item3])"
  by (simp add: handler_run [OF archive3_levels since_ex] window12 new12 batch3)

theorem backfill_idempotent_witness:
  "update_past_levels_table_handler utc_runtime archive3 (naive 2024 1 2 0 0) store12 =
     Inr (True, store12 @ [item3])
   \<and> update_past_levels_table_handler utc_runtime archive3 (naive 2024 1 2 0 5) (store12 @ [item3]) =
     Inr (False, store12 @ [item3])
   \<and> length (store12 @ [item3]) = 3"
proof -
  have w: "time ` set (new_river_levels
        [reading_at 10 0 123,
         reading_at 10 15 125,
         reading_at 10 30 127]
        (get_past_data_dynamo utc_runtime store12 ''Flesk'' (naive 2023 11 13 0 0)))
       \<subseteq> time ` set (get_past_data_dynamo utc_runtime (store12 @ [item3]) ''Flesk'' (naive 2023 11 13 0 5))"
    by (simp only: window12 new12 window123) simp
  have k: "time ` set (get_past_data_dynamo utc_runtime store12 ''Flesk'' (naive 2023 11 13 0 0))
       \<subseteq> time ` set (get_past_data_dynamo utc_runtime (store12 @ [item3]) ''Flesk'' (naive 2023 11 13 0 5))"
    by (simp only: window12 window123) simp
  from backfill_idempotent [OF archive3_levels since_ex since_ex2 run1_ex w k]
  have "update_past_levels_table_handler utc_runtime archive3 (naive 2024 1 2 0 5) (store12 @ [item3]) =
     Inr (False, store12 @ [item3])"
    by (rule conjunct1)
  with run1_ex show ?thesis by (simp add: store12_def)
qed

text \<open>
  With one clock value for both runs, a conversion that returns every time of the archive
  from its time stamp, and an archive that lies inside the window, the second run is quiet
  whatever the table was before the first run.
\<close>

lemma backfill_twice_same_clock:
  fixes L :: "'d runtime"
  assumes epa: "get_past_data_epa L rows 3000 = Inr epa"
      and s: "sub_days now 50 = Inr since"
      and run1: "update_past_levels_table_handler L rows now tbl = Inr (r1, tbl1)"
      and rt: "\<forall>l \<in> set epa. dt_fromtimestamp L (dt_timestamp L (time l)) = time l
                           \<and> dt_timestamp L since < dt_timestamp L (time l)"
  shows "update_past_levels_table_handler L rows now tbl1 = Inr (False, tbl1)"
proof -
  let ?w = "get_past_data_dynamo L tbl ''Flesk'' since"
  let ?new = "new_river_levels epa ?w"
  have t1: "tbl1 = batch_update_level_db L tbl ''Flesk'' ?new"
    using run1 by (simp add: handler_run [OF epa s] batch_update_nil split: if_splits)
  have sub: "set ?new \<subseteq> set epa" by (auto simp: new_river_levels_def)
  with rt have "\<forall>l \<in> set ?new. dt_fromtimestamp L (dt_timestamp L (time l)) = time l
                           \<and> dt_timestamp L since < dt_timestamp L (time l)"
    by (meson subsetD)
  then have w: "time ` set ?new \<subseteq> time ` set (get_past_data_dynamo L tbl1 ''Flesk'' since)"
    unfolding t1 by (rule written_in_window)
  have k: "time ` set ?w \<subseteq> time ` set (get_past_data_dynamo L tbl1 ''Flesk'' since)"
    unfolding t1 by (rule window_kept)
  show ?thesis by (rule second_run_quiet [OF epa s w k])
qed

lemma same_clock_example:
  "update_past_levels_table_handler utc_runtime archive3 (naive 2024 1 2 0 0) (store12 @ [item3])
     = Inr (False, store12 @ [item3])"
proof -
  have rt: "\<forall>l \<in> set [reading_at 10 0 123, reading_at 10 15 125, reading_at 10 30 127].
              dt_fromtimestamp utc_runtime (dt_timestamp utc_runtime (time l)) = time l
            \<and> dt_timestamp utc_runtime (naive 2023 11 13 0 0) < dt_timestamp utc_runtime (time l)"
    by code_simp
  show ?thesis
    by (rule backfill_twice_same_clock [OF archive3_levels since_ex run1_ex rt])
qed

text \<open>
  The window hypothesis of the second run is needed. Sixty days after the readings of the
  archive, the bound of the window lies above their time stamps: the window is empty, and
  every run finds all three readings new and writes them again.
\<close>

lemma stale_archive_rewritten:
  "sub_days (naive 2024 3 1 0 0) 50 = Inr (naive 2024 1 11 0 0)
   \<and> get_past_data_dynamo utc_runtime (store12 @ [item3]) ''Flesk'' (naive 2024 1 11 0 0) = []
   \<and> update_past_levels_table_handler utc_runtime archive3 (naive 2024 3 1 0 0) (store12 @ [item3])
       = Inr (True, store12 @ [item3])"
  by code_simp

end
